theory Spec2Isabelle
  imports Complex_Main
begin

section \<open>Bounded power-law distributions: a model of bpl.py\<close>

text \<open>
  The module works on Python floats and numpy float arrays. Floats are modelled as
  \<^typ>\<open>real\<close>, arrays as lists, an optional argument (\<^verbatim>\<open>xmax=None\<close>,
  \<^verbatim>\<open>bins=None\<close>) as an option. The rounding of doubles is not modelled: a real
  result stands for the double next to it, and the theorems below that are stated for all
  inputs are about outcomes and values that rounding does not change. Of overflow the
  model keeps that of a power: a result beyond the largest double raises OverflowError on
  Python scalars and is \<^verbatim>\<open>inf\<close> on numpy arrays.

  The module is Python 2 code of 2016 (it sets local variables through \<^verbatim>\<open>exec\<close> and
  hands floats to numpy where later releases want integers); the model follows Python 2
  and the numpy of that time.

  A call has one of three outcomes: it raises an exception, it returns a value, or it
  returns without an exception after numpy produced \<^verbatim>\<open>nan\<close> or \<^verbatim>\<open>inf\<close> on the way (numpy
  only warns there). The last outcome has no real-valued result and is kept apart as
  \<open>NonFinite\<close>.
\<close>

datatype exn = AssertionError | ZeroDivisionError | ValueError | IndexError | OverflowError

datatype 'a outcome = Raises exn | NonFinite | Returns 'a

fun and_then :: "'a outcome \<Rightarrow> ('a \<Rightarrow> 'b outcome) \<Rightarrow> 'b outcome" where
  "and_then (Raises e) f = Raises e"
| "and_then NonFinite f = NonFinite"
| "and_then (Returns v) f = f v"

text \<open>An elementwise numpy operation: one entry per element, in order.\<close>

fun traverse :: "('a \<Rightarrow> 'b outcome) \<Rightarrow> 'a list \<Rightarrow> 'b list outcome" where
  "traverse f [] = Returns []"
| "traverse f (x # xs) =
     and_then (f x) (\<lambda>y. and_then (traverse f xs) (\<lambda>ys. Returns (y # ys)))"

definition fails :: "'a outcome \<Rightarrow> bool" where
  "fails r = (case r of Raises e \<Rightarrow> True | NonFinite \<Rightarrow> False | Returns v \<Rightarrow> False)"

subsection \<open>Float operations\<close>

text \<open>
  \<^verbatim>\<open>x ** y\<close> on floats. A positive base gives \<open>x powr y\<close>; a zero exponent gives 1;
  zero to a positive power is 0 and to a negative power is a pole; a negative base has a
  real power only for an integral exponent.
\<close>

datatype pow_result = Finite real | PoleAtZero | NegFractional

definition float_pow :: "real \<Rightarrow> real \<Rightarrow> pow_result" where
  "float_pow x y =
     (if y = 0 then Finite 1
      else if 0 < x then Finite (x powr y)
      else if x = 0 then (if 0 < y then Finite 0 else PoleAtZero)
      else if of_int \<lfloor>y\<rfloor> = y
        then Finite ((if even \<lfloor>y\<rfloor> then 1 else - 1) * ((- x) powr y))
      else NegFractional)"

text \<open>The largest double, \<^verbatim>\<open>(2 - 2**-52) * 2**1023\<close>.\<close>

definition dbl_max :: real where
  "dbl_max = (2 ^ 53 - 1) * 2 ^ 971"

text \<open>On Python scalars the pole raises ZeroDivisionError, the fractional power of a
  negative number raises ValueError and a result out of range raises OverflowError; on
  numpy arrays they give \<^verbatim>\<open>inf\<close> and \<^verbatim>\<open>nan\<close>.\<close>

definition py_pow :: "real \<Rightarrow> real \<Rightarrow> real outcome" where
  "py_pow x y =
     (case float_pow x y of
        Finite v \<Rightarrow> if dbl_max < \<bar>v\<bar> then Raises OverflowError else Returns v
      | PoleAtZero \<Rightarrow> Raises ZeroDivisionError
      | NegFractional \<Rightarrow> Raises ValueError)"

definition np_pow :: "real \<Rightarrow> real \<Rightarrow> real outcome" where
  "np_pow x y =
     (case float_pow x y of
        Finite v \<Rightarrow> if dbl_max < \<bar>v\<bar> then NonFinite else Returns v
      | PoleAtZero \<Rightarrow> NonFinite
      | NegFractional \<Rightarrow> NonFinite)"

definition py_div :: "real \<Rightarrow> real \<Rightarrow> real outcome" where
  "py_div a b = (if b = 0 then Raises ZeroDivisionError else Returns (a / b))"

definition np_div :: "real \<Rightarrow> real \<Rightarrow> real outcome" where
  "np_div a b = (if b = 0 then NonFinite else Returns (a / b))"

definition np_log10 :: "real \<Rightarrow> real outcome" where
  "np_log10 x = (if 0 < x then Returns (log 10 x) else NonFinite)"

text \<open>\<^verbatim>\<open>if not xmax\<close>: the bound counts as absent when it is \<^verbatim>\<open>None\<close> and also when it
  is zero. \<open>present xmax\<close> is the bound that the \<^verbatim>\<open>else\<close> branch sees.\<close>

definition present :: "real option \<Rightarrow> real option" where
  "present xmax = (case xmax of None \<Rightarrow> None | Some v \<Rightarrow> if v = 0 then None else Some v)"

subsection \<open>sample, pdf, cdf\<close>

text \<open>
  \<^verbatim>\<open>np.random.rand(size)\<close> is the parameter \<open>rand\<close>: the random source, asked for
  \<open>sz\<close> draws (\<open>sz\<close> is the source's \<^verbatim>\<open>size\<close>, a name HOL already uses).
\<close>

definition sample :: "real \<Rightarrow> nat \<Rightarrow> real \<Rightarrow> real option \<Rightarrow> (nat \<Rightarrow> real list) \<Rightarrow> real list outcome" where
  "sample alpha sz xmin xmax rand =
     (if \<not> alpha > 1 then Raises AssertionError
      else
        let beta = 1 - alpha;
            r = rand sz
        in case present xmax of
             None \<Rightarrow>
               and_then (traverse (\<lambda>ri. np_pow (1 - ri) (1 / beta)) r) (\<lambda>p.
               Returns (map (\<lambda>v. xmin * v) p))
           | Some xm \<Rightarrow>
               and_then (py_pow xmin beta) (\<lambda>a.
               and_then (py_pow xm beta) (\<lambda>xb.
               let b = xb - a
               in traverse (\<lambda>ri. np_pow (a + b * ri) (1 / beta)) r)))"

definition pdf :: "real list \<Rightarrow> real \<Rightarrow> real \<Rightarrow> real option \<Rightarrow> real list outcome" where
  "pdf x alpha xmin xmax =
     (if \<not> alpha > 1 then Raises AssertionError
      else
        let beta = 1 - alpha
        in case present xmax of
             None \<Rightarrow>
               and_then (py_pow xmin beta) (\<lambda>d.
               and_then (py_div (- beta) d) (\<lambda>k.
               and_then (traverse (\<lambda>xi. np_pow xi (- alpha)) x) (\<lambda>p.
               Returns (map (\<lambda>v. k * v) p))))
           | Some xm \<Rightarrow>
               and_then (py_pow xm beta) (\<lambda>u.
               and_then (py_pow xmin beta) (\<lambda>l.
               let k = u - l
               in and_then (py_div beta k) (\<lambda>c.
                  and_then (traverse (\<lambda>xi. np_pow xi (- alpha)) x) (\<lambda>p.
                  Returns (map (\<lambda>v. c * v) p))))))"

definition cdf :: "real list \<Rightarrow> real \<Rightarrow> real \<Rightarrow> real option \<Rightarrow> real list outcome" where
  "cdf x alpha xmin xmax =
     (if \<not> alpha > 1 then Raises AssertionError
      else
        let beta = 1 - alpha
        in case present xmax of
             None \<Rightarrow>
               let k = 1
               in and_then (traverse (\<lambda>xi. and_then (np_div xi xmin) (\<lambda>q. np_pow q beta)) x) (\<lambda>p.
                  Returns (map (\<lambda>v. k - v) p))
           | Some xm \<Rightarrow>
               and_then (py_pow xm beta) (\<lambda>u.
               and_then (py_pow xmin beta) (\<lambda>l.
               let k = u - l
               in and_then (traverse (\<lambda>xi. np_pow xi beta) x) (\<lambda>p.
                  traverse (\<lambda>v. np_div (v - l) k) p))))"

subsection \<open>histogram\<close>

text \<open>
  \<^verbatim>\<open>np.linspace(start, stop, num)\<close>: \<open>num\<close> points with a constant step, the last one
  set to \<open>stop\<close>; a single point is \<open>start\<close>. \<^verbatim>\<open>np.logspace(..., base=10)\<close> raises 10
  to each of them.
\<close>

definition linspace :: "real \<Rightarrow> real \<Rightarrow> nat \<Rightarrow> real list" where
  "linspace start stop num =
     (if 1 < num
      then map (\<lambda>i. real i * ((stop - start) / real (num - 1)) + start) [0..<num - 1] @ [stop]
      else map (\<lambda>i. start) [0..<num])"

definition logspace :: "real \<Rightarrow> real \<Rightarrow> nat \<Rightarrow> real list" where
  "logspace start stop num = map (\<lambda>y. 10 powr y) (linspace start stop num)"

text \<open>
  \<^verbatim>\<open>_logbins(arr)\<close>. With an empty \<open>arr\<close>, \<^verbatim>\<open>np.log2(0)\<close> only warns; the exception
  comes from \<^verbatim>\<open>.min()\<close> of the empty selection \<^verbatim>\<open>arr[arr != 0.]\<close>, a ValueError.
  \<open>nbins\<close> is used only after that.
\<close>

definition logbins :: "real list \<Rightarrow> real list outcome" where
  "logbins arr =
     (let n = length arr;
          nbins = nat (\<lceil>log 2 (real n)\<rceil> + 1);
          nz = filter (\<lambda>x. x \<noteq> 0) arr
      in if nz = [] then Raises ValueError
         else
           let arrmin = Min (set nz);
               arrmax = Max (set arr)
           in and_then (np_log10 arrmin) (\<lambda>lo.
              and_then (np_log10 arrmax) (\<lambda>hi.
              Returns (logspace lo hi nbins))))"

text \<open>
  \<^verbatim>\<open>np.histogram(a, bins=edges, density=d)[0]\<close> for an array of edges. numpy sorts the
  sample and counts by \<^verbatim>\<open>searchsorted\<close>: the number of values below each edge but the
  last, and the number of values up to the last edge; the counts are the differences.
  With \<^verbatim>\<open>density\<close> it returns \<^verbatim>\<open>n / db / n.sum()\<close>. Without edges, \<^verbatim>\<open>bins[-1]\<close>
  is an IndexError as soon as there is a value to count.
\<close>

datatype hist = IntArr "int list" | FloatArr "real list"

definition np_diff :: "'a::minus list \<Rightarrow> 'a list" where
  "np_diff xs = map2 (\<lambda>a b. b - a) xs (tl xs)"

definition searchsorted_left :: "real list \<Rightarrow> real \<Rightarrow> int" where
  "searchsorted_left a v = int (length (filter (\<lambda>x. x < v) a))"

definition searchsorted_right :: "real list \<Rightarrow> real \<Rightarrow> int" where
  "searchsorted_right a v = int (length (filter (\<lambda>x. x \<le> v) a))"

definition cumulative :: "real list \<Rightarrow> real list \<Rightarrow> int list" where
  "cumulative a bins =
     map (searchsorted_left a) (butlast bins) @ [searchsorted_right a (last bins)]"

definition np_histogram :: "real list \<Rightarrow> real list \<Rightarrow> bool \<Rightarrow> hist outcome" where
  "np_histogram a bins density =
     (if list_ex (\<lambda>d. d < 0) (np_diff bins) then Raises ValueError
      else if bins = [] \<and> a \<noteq> [] then Raises IndexError
      else
        let n = np_diff (if bins = [] then [] else cumulative a bins)
        in if density
           then
             let db = np_diff bins;
                 s = sum_list n
             in and_then
                  (traverse (\<lambda>(c, w). and_then (np_div (of_int c) w) (\<lambda>q. np_div q (of_int s)))
                     (zip n db))
                  (\<lambda>h. Returns (FloatArr h))
           else Returns (IntArr n))"

text \<open>\<^verbatim>\<open>not bins\<close> on a numpy array: an empty array is false, an array of one element has
  the truth value of the element, a longer one raises ValueError.\<close>

definition truth_ndarray :: "real list \<Rightarrow> bool outcome" where
  "truth_ndarray b =
     (case b of [] \<Rightarrow> Returns False | [v] \<Rightarrow> Returns (v \<noteq> 0) | v # w # r \<Rightarrow> Raises ValueError)"

text \<open>
  \<^verbatim>\<open>histogram(arr, bins, plot=False, **kwargs)\<close>. Of the keywords, \<^verbatim>\<open>density\<close> alone
  reaches the numbers: \<open>density_kw\<close> is its value when the caller passes it, and the
  \<^verbatim>\<open>exec\<close> loop assigns it to the local \<^verbatim>\<open>density\<close> (default \<^verbatim>\<open>False\<close>). The other
  keywords and \<^verbatim>\<open>ax\<close> only reach the plot, which is not modelled; the result is the pair
  \<^verbatim>\<open>(hist, bins)\<close>.
\<close>

definition histogram :: "real list \<Rightarrow> real list option \<Rightarrow> bool option \<Rightarrow> (hist \<times> real list) outcome" where
  "histogram arr bins density_kw =
     (let density = (case density_kw of None \<Rightarrow> False | Some d \<Rightarrow> d)
      in and_then
           (case bins of
              None \<Rightarrow> logbins arr
            | Some b \<Rightarrow> and_then (truth_ndarray b) (\<lambda>t. if \<not> t then logbins arr else Returns b))
           (\<lambda>bins'.
           and_then (np_histogram arr bins' density) (\<lambda>hist.
           Returns (hist, bins'))))"

subsection \<open>The specification's words\<close>

text \<open>The number of sample values in bin \<open>i\<close> of the edges \<open>b\<close>: from \<open>b ! i\<close> up to,
  and without, \<open>b ! (i + 1)\<close>; the last bin includes its upper edge.\<close>

definition bin_count :: "real list \<Rightarrow> real list \<Rightarrow> nat \<Rightarrow> int" where
  "bin_count a b i =
     int (length (filter (\<lambda>v. b ! i \<le> v \<and> (v < b ! (i + 1) \<or> (i + 2 = length b \<and> v = b ! (i + 1)))) a))"

definition counts :: "real list \<Rightarrow> real list \<Rightarrow> int list" where
  "counts a b = map (bin_count a b) [0..<length b - 1]"

text \<open>The number of sample values between the first and the last edge.\<close>

definition inside :: "real list \<Rightarrow> real list \<Rightarrow> nat" where
  "inside a b = length (filter (\<lambda>v. hd b \<le> v \<and> v \<le> last b) a)"

text \<open>Counts divided by (number of counted values * bin width): what numpy's
  \<^verbatim>\<open>density\<close> computes.\<close>

definition counted_density :: "real list \<Rightarrow> real list \<Rightarrow> real list" where
  "counted_density a b =
     map (\<lambda>i. real_of_int (bin_count a b i)
               / (real_of_int (sum_list (counts a b)) * (b ! (i + 1) - b ! i)))
       [0..<length b - 1]"

text \<open>Counts divided by (sample size * bin width).\<close>

definition spec_density :: "real list \<Rightarrow> real list \<Rightarrow> real list" where
  "spec_density a b =
     map (\<lambda>i. real_of_int (bin_count a b i) / (real (length a) * (b ! (i + 1) - b ! i)))
       [0..<length b - 1]"

text \<open>The default edges: \<open>numBins = ceil(log2(n)) + 1\<close> points evenly spaced in log10
  space between \<open>log10(arrMin)\<close> and \<open>log10(arrMax)\<close>, \<open>arrMin\<close> the minimum of the strictly
  positive elements.\<close>

definition numBins :: "real list \<Rightarrow> nat" where
  "numBins a = nat (\<lceil>log 2 (real (length a))\<rceil> + 1)"

definition arrMin :: "real list \<Rightarrow> real" where
  "arrMin a = Min (set (filter (\<lambda>x. 0 < x) a))"

definition arrMax :: "real list \<Rightarrow> real" where
  "arrMax a = Max (set a)"

definition spec_edges :: "real list \<Rightarrow> real list" where
  "spec_edges a =
     map (\<lambda>i. 10 powr (log 10 (arrMin a)
                + real i * ((log 10 (arrMax a) - log 10 (arrMin a)) / real (numBins a - 1))))
       [0..<numBins a]"

subsection \<open>Basic facts\<close>

lemma and_then_Raises_iff:
  "and_then m f = Raises e \<longleftrightarrow> m = Raises e \<or> (\<exists>v. m = Returns v \<and> f v = Raises e)"
  by (cases m) auto

lemma and_then_Returns_iff:
  "and_then m f = Returns w \<longleftrightarrow> (\<exists>v. m = Returns v \<and> f v = Returns w)"
  by (cases m) auto

lemma float_pow_pos: "0 < x \<Longrightarrow> float_pow x y = Finite (x powr y)"
  by (simp add: float_pow_def)


lemma py_pow_not_assert: "py_pow x y \<noteq> Raises AssertionError"
  by (simp add: py_pow_def split: pow_result.splits)

lemma np_pow_not_raise: "np_pow x y \<noteq> Raises e"
  by (simp add: np_pow_def split: pow_result.splits)

lemma dbl_max_ge_1000: "1000 \<le> dbl_max"
  by (simp add: dbl_max_def)


lemma py_pow_small: "0 < x \<Longrightarrow> x powr y \<le> 1000 \<Longrightarrow> py_pow x y = Returns (x powr y)"
  using dbl_max_ge_1000 by (simp add: py_pow_def float_pow_pos)

lemma np_pow_small: "0 < x \<Longrightarrow> x powr y \<le> 1000 \<Longrightarrow> np_pow x y = Returns (x powr y)"
  using dbl_max_ge_1000 by (simp add: np_pow_def float_pow_pos)

lemma np_div_not_raise: "np_div x y \<noteq> Raises e"
  by (simp add: np_div_def)

lemma py_div_not_assert: "py_div x y \<noteq> Raises AssertionError"
  by (simp add: py_div_def)

lemma traverse_not_raise:
  "(\<And>x. f x \<noteq> Raises e) \<Longrightarrow> traverse f xs \<noteq> Raises e"
  by (induction xs) (auto simp: and_then_Raises_iff)


subsection \<open>Powers with a negative exponent\<close>


subsection \<open>The assertion is the only parameter check\<close>

lemma sample_assert_iff:
  "sample alpha sz xmin xmax rand = Raises AssertionError \<longleftrightarrow> alpha \<le> 1"
  by (auto simp: sample_def Let_def and_then_Raises_iff py_pow_not_assert np_pow_not_raise
        traverse_not_raise split: option.splits)

lemma pdf_assert_iff:
  "pdf x alpha xmin xmax = Raises AssertionError \<longleftrightarrow> alpha \<le> 1"
  by (auto simp: pdf_def Let_def and_then_Raises_iff py_pow_not_assert np_pow_not_raise
        py_div_not_assert traverse_not_raise split: option.splits)

lemma cdf_assert_iff:
  "cdf x alpha xmin xmax = Raises AssertionError \<longleftrightarrow> alpha \<le> 1"
  by (auto simp: cdf_def Let_def and_then_Raises_iff py_pow_not_assert np_pow_not_raise
        np_div_not_raise traverse_not_raise split: option.splits)

text \<open>
  C1, as the specification states it, fails: with \<open>alpha = 2\<close>, \<open>xmin = 10\<close>, \<open>xmax = 5\<close>
  (an upper bound below the lower one) and the draw 0, \<open>sample\<close> returns \<open>[10]\<close>; with
  \<open>xmin = 0\<close> and no upper bound it returns \<open>[0]\<close>. Neither call raises.
\<close>

theorem sample_unchecked_bounds_counterexample:
  "sample 2 1 10 (Some 5) (\<lambda>n. [0]) = Returns [10] \<and>
   sample 2 1 0 None (\<lambda>n. [0]) = Returns [0]"
  by (simp add: sample_def present_def py_pow_small np_pow_small powr_minus)

text \<open>
  C1, amended: \<open>sample\<close>, \<open>pdf\<close> and \<open>cdf\<close> raise AssertionError (the specification's
  InvalidParameter), as their first step, exactly when \<open>alpha \<le> 1\<close>. With \<open>alpha > 1\<close>
  that error is not raised, whatever \<open>xmin\<close> and \<open>xmax\<close> are.
\<close>

theorem invalid_parameter_iff_alpha:
  "(sample alpha sz xmin xmax rand = Raises AssertionError \<longleftrightarrow> alpha \<le> 1) \<and>
   (pdf x alpha xmin xmax = Raises AssertionError \<longleftrightarrow> alpha \<le> 1) \<and>
   (cdf x alpha xmin xmax = Raises AssertionError \<longleftrightarrow> alpha \<le> 1)"
  by (simp only: sample_assert_iff pdf_assert_iff cdf_assert_iff)

theorem invalid_parameter_iff_alpha_witness:
  "sample 1 3 1 None (\<lambda>n. replicate n 0) = Raises AssertionError \<and>
   pdf [1] 2 0 None \<noteq> Raises AssertionError \<and>
   cdf [20] 2 10 (Some 5) \<noteq> Raises AssertionError"
  using invalid_parameter_iff_alpha [of 1 3 1 None "\<lambda>n. replicate n 0" "[]"]
    invalid_parameter_iff_alpha [of 2 0 0 None "\<lambda>n. []" "[1]"]
    invalid_parameter_iff_alpha [of 2 0 10 "Some 5" "\<lambda>n. []" "[20]"]
  by simp

subsection \<open>The cdf at the lower bound\<close>







subsection \<open>np.diff\<close>

lemma length_np_diff: "length (np_diff xs) = length xs - 1"
  by (simp add: np_diff_def)

lemma nth_np_diff: "Suc i < length xs \<Longrightarrow> np_diff xs ! i = xs ! Suc i - xs ! i"
  by (simp add: np_diff_def nth_tl)

lemma np_diff_eq_map: "np_diff xs = map (\<lambda>i. xs ! Suc i - xs ! i) [0..<length xs - 1]"
  by (rule nth_equalityI) (simp_all add: length_np_diff nth_np_diff)

lemma sum_list_np_diff:
  fixes xs :: "'a::ab_group_add list"
  shows "xs \<noteq> [] \<Longrightarrow> sum_list (np_diff xs) = last xs - hd xs"
proof (induction xs rule: induct_list012)
  case (3 x y zs)
  then have "sum_list (np_diff (y # zs)) = last (y # zs) - y" by simp
  moreover have "np_diff (x # y # zs) = (y - x) # np_diff (y # zs)"
    by (simp add: np_diff_def)
  ultimately show ?case by simp
qed (simp_all add: np_diff_def)

lemma no_negative_step_iff:
  fixes bins :: "real list"
  shows "\<not> list_ex (\<lambda>d. d < 0) (np_diff bins) \<longleftrightarrow> (\<forall>i. Suc i < length bins \<longrightarrow> bins ! i \<le> bins ! Suc i)"
proof -
  have lt: "i < length bins - 1 \<longleftrightarrow> Suc i < length bins" for i by auto
  have "list_ex (\<lambda>d. d < 0) (np_diff bins) \<longleftrightarrow> (\<exists>i<length bins - 1. bins ! Suc i - bins ! i < 0)"
    unfolding np_diff_eq_map list_ex_iff by (simp add: Bex_def image_iff) force
  also have "\<dots> \<longleftrightarrow> (\<exists>i. Suc i < length bins \<and> bins ! Suc i < bins ! i)"
    unfolding lt by simp
  finally have "\<not> list_ex (\<lambda>d. d < 0) (np_diff bins) \<longleftrightarrow>
      \<not> (\<exists>i. Suc i < length bins \<and> bins ! Suc i < bins ! i)"
    by (rule arg_cong)
  also have "\<dots> \<longleftrightarrow> (\<forall>i. Suc i < length bins \<longrightarrow> bins ! i \<le> bins ! Suc i)"
    using linorder_not_less by blast
  finally show ?thesis .
qed

subsection \<open>linspace and logspace\<close>

lemma linspace_eq_map:
  "linspace start stop num =
     map (\<lambda>i. start + real i * ((stop - start) / real (num - 1))) [0..<num]"
proof (cases "1 < num")
  case True
  then obtain m where m: "num = Suc m" "0 < m" by (cases num) auto
  have "stop = start + real m * ((stop - start) / real m)" using m by simp
  then show ?thesis using m
    by (simp add: linspace_def add.commute)
next
  case False
  then have "num = 0 \<or> num = 1" by auto
  then show ?thesis by (auto simp: linspace_def)
qed

lemma logspace_eq_map:
  "logspace start stop num =
     map (\<lambda>i. 10 powr (start + real i * ((stop - start) / real (num - 1)))) [0..<num]"
  by (simp add: logspace_def linspace_eq_map o_def)

lemma length_logspace: "length (logspace start stop num) = num"
  by (simp add: logspace_eq_map)

lemma nth_logspace:
  "i < num \<Longrightarrow> logspace start stop num ! i = 10 powr (start + real i * ((stop - start) / real (num - 1)))"
  by (simp add: logspace_eq_map)

lemma logspace_step_le:
  assumes "start \<le> stop" "Suc i < num"
  shows "logspace start stop num ! i \<le> logspace start stop num ! Suc i"
proof -
  have "0 \<le> (stop - start) / real (num - 1)" using assms by simp
  then have "real i * ((stop - start) / real (num - 1)) \<le> real (Suc i) * ((stop - start) / real (num - 1))"
    by (intro mult_right_mono) auto
  then show ?thesis using assms(2) by (simp add: nth_logspace del: of_nat_Suc)
qed

subsection \<open>Counting between two edges\<close>

lemma count_between_left:
  fixes lo hi :: real
  assumes "lo \<le> hi"
  shows "searchsorted_left a hi - searchsorted_left a lo = int (length (filter (\<lambda>v. lo \<le> v \<and> v < hi) a))"
  using assms by (induction a) (auto simp: searchsorted_left_def)

lemma count_between_right:
  fixes lo hi :: real
  assumes "lo \<le> hi"
  shows "searchsorted_right a hi - searchsorted_left a lo = int (length (filter (\<lambda>v. lo \<le> v \<and> v \<le> hi) a))"
  using assms by (induction a) (auto simp: searchsorted_left_def searchsorted_right_def)

subsection \<open>np.histogram on non-decreasing edges\<close>

lemma steps_sorted:
  fixes b :: "real list"
  assumes "\<forall>i. Suc i < length b \<longrightarrow> b ! i \<le> b ! Suc i"
  shows "sorted b"
  using assms by (simp add: sorted_iff_nth_Suc)

lemma steps_hd_le_last:
  fixes b :: "real list"
  assumes "\<forall>i. Suc i < length b \<longrightarrow> b ! i \<le> b ! Suc i" "b \<noteq> []"
  shows "hd b \<le> last b"
proof -
  have "sorted b" using assms(1) by (rule steps_sorted)
  then have "b ! 0 \<le> b ! (length b - 1)"
    using assms(2) by (intro sorted_nth_mono) auto
  then show ?thesis using assms(2) by (simp add: hd_conv_nth last_conv_nth)
qed

lemma length_cumulative: "bins \<noteq> [] \<Longrightarrow> length (cumulative a bins) = length bins"
  by (simp add: cumulative_def)

lemma nth_cumulative_left:
  "Suc i < length bins \<Longrightarrow> cumulative a bins ! i = searchsorted_left a (bins ! i)"
  by (auto simp: cumulative_def nth_append nth_butlast)

lemma nth_cumulative_last:
  "Suc i = length bins \<Longrightarrow> cumulative a bins ! i = searchsorted_right a (bins ! i)"
  by (cases bins rule: rev_cases) (auto simp: cumulative_def nth_append)

lemma np_diff_cumulative:
  assumes "\<forall>i. Suc i < length bins \<longrightarrow> bins ! i \<le> bins ! Suc i" "bins \<noteq> []"
  shows "np_diff (cumulative a bins) = counts a bins"
proof (rule nth_equalityI)
  show "length (np_diff (cumulative a bins)) = length (counts a bins)"
    using assms(2) by (simp add: length_np_diff length_cumulative counts_def)
next
  fix i assume "i < length (np_diff (cumulative a bins))"
  then have i: "Suc i < length bins"
    using assms(2) by (simp add: length_np_diff length_cumulative)
  then have le: "bins ! i \<le> bins ! Suc i" using assms(1) by simp
  have d: "np_diff (cumulative a bins) ! i = cumulative a bins ! Suc i - cumulative a bins ! i"
    using i assms(2) by (simp add: nth_np_diff length_cumulative)
  show "np_diff (cumulative a bins) ! i = counts a bins ! i"
  proof (cases "Suc (Suc i) = length bins")
    case True
    have "np_diff (cumulative a bins) ! i
        = searchsorted_right a (bins ! Suc i) - searchsorted_left a (bins ! i)"
      using d i True by (simp add: nth_cumulative_left nth_cumulative_last)
    also have "\<dots> = int (length (filter (\<lambda>v. bins ! i \<le> v \<and> v \<le> bins ! Suc i) a))"
      using le by (rule count_between_right)
    also have "\<dots> = bin_count a bins i"
      using True unfolding bin_count_def
      by (auto intro!: arg_cong [where f = length] filter_cong)
    finally show ?thesis using i by (simp add: counts_def)
  next
    case False
    then have "Suc (Suc i) < length bins" using i by simp
    then have "np_diff (cumulative a bins) ! i
        = searchsorted_left a (bins ! Suc i) - searchsorted_left a (bins ! i)"
      using d i by (simp add: nth_cumulative_left)
    also have "\<dots> = int (length (filter (\<lambda>v. bins ! i \<le> v \<and> v < bins ! Suc i) a))"
      using le by (rule count_between_left)
    also have "\<dots> = bin_count a bins i"
      using False unfolding bin_count_def
      by (auto intro!: arg_cong [where f = length] filter_cong)
    finally show ?thesis using i by (simp add: counts_def)
  qed
qed

lemma sum_counts_inside:
  assumes "\<forall>i. Suc i < length bins \<longrightarrow> bins ! i \<le> bins ! Suc i" "2 \<le> length bins"
  shows "sum_list (counts a bins) = int (inside a bins)"
proof -
  have ne: "bins \<noteq> []" using assms(2) by auto
  have c: "cumulative a bins \<noteq> []" by (simp add: cumulative_def)
  have "sum_list (counts a bins) = sum_list (np_diff (cumulative a bins))"
    using assms(1) ne by (simp add: np_diff_cumulative)
  also have "\<dots> = last (cumulative a bins) - hd (cumulative a bins)"
    using c by (rule sum_list_np_diff)
  also have "last (cumulative a bins) = searchsorted_right a (last bins)"
    by (simp add: cumulative_def)
  also have "hd (cumulative a bins) = searchsorted_left a (hd bins)"
    using nth_cumulative_left [of 0 bins a] assms(2) c ne
    by (simp add: hd_conv_nth)
  also have "searchsorted_right a (last bins) - searchsorted_left a (hd bins)
      = int (length (filter (\<lambda>v. hd bins \<le> v \<and> v \<le> last bins) a))"
    using assms(1) ne by (intro count_between_right steps_hd_le_last)
  finally show ?thesis by (simp add: inside_def)
qed

lemma np_histogram_Returns_steps:
  assumes "np_histogram a bins density = Returns h"
  shows "\<forall>i. Suc i < length bins \<longrightarrow> bins ! i \<le> bins ! Suc i"
  using assms no_negative_step_iff [of bins]
  by (auto simp: np_histogram_def split: if_splits)

lemma np_histogram_unfold:
  assumes "\<forall>i. Suc i < length bins \<longrightarrow> bins ! i \<le> bins ! Suc i" "bins = [] \<longrightarrow> a = []"
  shows "np_histogram a bins density =
     (if density
      then and_then
             (traverse (\<lambda>(c, w). and_then (np_div (of_int c) w) (\<lambda>q. np_div q (of_int (sum_list (counts a bins)))))
                (zip (counts a bins) (np_diff bins)))
             (\<lambda>h. Returns (FloatArr h))
      else Returns (IntArr (counts a bins)))"
proof -
  have "\<not> list_ex (\<lambda>d. d < 0) (np_diff bins)"
    using assms(1) by (simp add: no_negative_step_iff)
  moreover have "np_diff (if bins = [] then [] else cumulative a bins) = counts a bins"
    using assms(1) by (simp add: np_diff_cumulative) (simp add: np_diff_def counts_def)
  moreover have "\<not> (bins = [] \<and> a \<noteq> [])" using assms(2) by simp
  ultimately show ?thesis
    unfolding np_histogram_def Let_def by (simp only: if_False)
qed

subsection \<open>Failure\<close>

lemma fails_simps [simp]:
  "fails (Raises e)" "\<not> fails NonFinite" "\<not> fails (Returns v)"
  by (simp_all add: fails_def)

lemma fails_and_then:
  "fails (and_then m f) \<longleftrightarrow> fails m \<or> (\<exists>v. m = Returns v \<and> fails (f v))"
  by (cases m) auto

lemma traverse_not_fails: "(\<And>x. \<not> fails (f x)) \<Longrightarrow> \<not> fails (traverse f xs)"
  by (induction xs) (auto simp: fails_and_then)

lemma np_histogram_not_fails:
  assumes "\<forall>i. Suc i < length bins \<longrightarrow> bins ! i \<le> bins ! Suc i" "bins \<noteq> []"
  shows "\<not> fails (np_histogram a bins density)"
proof -
  have "\<not> fails (traverse (\<lambda>(c, w). and_then (np_div (of_int c) w) (\<lambda>q. np_div q s)) xs)"
    for s and xs :: "(int \<times> real) list"
    by (rule traverse_not_fails) (auto simp: fails_and_then np_div_def split: if_splits)
  then show ?thesis using assms
    by (simp add: np_histogram_unfold fails_and_then)
qed

subsection \<open>Sturges' number of edges\<close>

lemma nbins_ge_1: "1 \<le> n \<Longrightarrow> 1 \<le> nat (\<lceil>log 2 (real n)\<rceil> + 1)"
proof -
  assume "1 \<le> n"
  then have "0 \<le> log 2 (real n)" by simp
  then have "0 \<le> \<lceil>log 2 (real n)\<rceil>" by linarith
  then show ?thesis by linarith
qed

subsection \<open>The default edges\<close>

lemma logbins_all_zero:
  assumes "\<forall>v\<in>set arr. v = 0"
  shows "logbins arr = Raises ValueError"
proof -
  have "filter (\<lambda>x. x \<noteq> 0) arr = []" using assms by (simp add: filter_empty_conv)
  then show ?thesis by (simp add: logbins_def)
qed

lemma logbins_negative_min:
  assumes "filter (\<lambda>x. x \<noteq> 0) arr \<noteq> []" "Min (set (filter (\<lambda>x. x \<noteq> 0) arr)) \<le> 0"
  shows "logbins arr = NonFinite"
  using assms by (simp add: logbins_def np_log10_def Let_def)

lemma set_filter_nonempty: "filter P xs \<noteq> [] \<Longrightarrow> set (filter P xs) \<noteq> {}"
  by (simp only: set_empty not_False_eq_True)

lemma Min_le_Max_nz:
  assumes "filter (\<lambda>x. x \<noteq> 0) arr \<noteq> []"
  shows "Min (set (filter (\<lambda>x. x \<noteq> (0::real)) arr)) \<le> Max (set arr)"
proof -
  let ?nz = "filter (\<lambda>x. x \<noteq> 0) arr"
  have "Min (set ?nz) \<in> set ?nz" using assms by (intro Min_in set_filter_nonempty) auto
  then have "Min (set ?nz) \<in> set arr" by simp
  then show ?thesis by (intro Max_ge) auto
qed

lemma logbins_positive_min:
  assumes "filter (\<lambda>x. x \<noteq> 0) arr \<noteq> []" "0 < Min (set (filter (\<lambda>x. x \<noteq> 0) arr))"
  shows "logbins arr =
     Returns (logspace (log 10 (Min (set (filter (\<lambda>x. x \<noteq> 0) arr)))) (log 10 (Max (set arr)))
                (nat (\<lceil>log 2 (real (length arr))\<rceil> + 1)))"
proof -
  have "0 < Max (set arr)" using assms Min_le_Max_nz [of arr] by linarith
  then show ?thesis using assms by (simp add: logbins_def np_log10_def Let_def)
qed

lemma logbins_cases:
  "logbins arr = Raises ValueError \<and> (\<forall>v\<in>set arr. v = 0) \<or>
   logbins arr = NonFinite \<and> (\<exists>v\<in>set arr. v < 0) \<or>
   (\<exists>lo hi num. logbins arr = Returns (logspace lo hi num) \<and> lo \<le> hi \<and> 1 \<le> num \<and>
      (\<forall>v\<in>set arr. 0 \<le> v) \<and> (\<exists>v\<in>set arr. v \<noteq> 0))"
proof -
  let ?nz = "filter (\<lambda>x. x \<noteq> 0) arr"
  consider "?nz = []" | "?nz \<noteq> []" "Min (set ?nz) \<le> 0" | "?nz \<noteq> []" "0 < Min (set ?nz)"
    by fastforce
  then show ?thesis
  proof cases
    case 1
    then have "\<forall>v\<in>set arr. v = 0" by (simp add: filter_empty_conv)
    then show ?thesis by (simp add: logbins_all_zero)
  next
    case 2
    have "Min (set ?nz) \<in> set ?nz" using 2(1) by (intro Min_in set_filter_nonempty) auto
    then have "Min (set ?nz) \<in> set arr" "Min (set ?nz) \<noteq> 0" by simp_all
    then have "\<exists>v\<in>set arr. v < 0" using 2(2) by force
    then show ?thesis using 2 by (simp add: logbins_negative_min)
  next
    case 3
    have le: "Min (set ?nz) \<le> Max (set arr)" using 3(1) by (rule Min_le_Max_nz)
    then have "log 10 (Min (set ?nz)) \<le> log 10 (Max (set arr))" using 3(2) by simp
    moreover have "arr \<noteq> []" using 3(1) by auto
    then have "1 \<le> nat (\<lceil>log 2 (real (length arr))\<rceil> + 1)"
      by (intro nbins_ge_1) (simp add: Suc_le_eq)
    moreover have "0 \<le> v" if "v \<in> set arr" for v
    proof (cases "v = 0")
      case False
      then have "Min (set ?nz) \<le> v" using that by (intro Min_le) auto
      then show ?thesis using 3(2) by simp
    qed simp
    moreover have "\<exists>v\<in>set arr. v \<noteq> 0" using 3(1) by (auto simp: filter_empty_conv)
    ultimately show ?thesis using logbins_positive_min [OF 3] by blast
  qed
qed

lemma histogram_default:
  "histogram arr None density_kw =
     and_then (logbins arr) (\<lambda>b.
     and_then (np_histogram arr b (case density_kw of None \<Rightarrow> False | Some d \<Rightarrow> d)) (\<lambda>h.
     Returns (h, b)))"
  by (simp add: histogram_def)

lemma logspace_steps:
  assumes "lo \<le> hi"
  shows "\<forall>i. Suc i < length (logspace lo hi num) \<longrightarrow> logspace lo hi num ! i \<le> logspace lo hi num ! Suc i"
  using assms by (simp add: length_logspace logspace_step_le)

lemma histogram_fails_iff:
  "fails (histogram arr None density_kw) \<longleftrightarrow> (\<forall>v\<in>set arr. v = 0)"
proof -
  consider (zero) "logbins arr = Raises ValueError" "\<forall>v\<in>set arr. v = 0"
    | (neg) "logbins arr = NonFinite" "\<exists>v\<in>set arr. v < 0"
    | (pos) lo hi num where "logbins arr = Returns (logspace lo hi num)" "lo \<le> hi" "1 \<le> num"
        "\<exists>v\<in>set arr. v \<noteq> 0"
    using logbins_cases [of arr] by blast
  then show ?thesis
  proof cases
    case zero
    then show ?thesis by (simp add: histogram_default)
  next
    case neg
    then have "\<not> (\<forall>v\<in>set arr. v = 0)" by force
    then show ?thesis using neg(1) by (simp add: histogram_default)
  next
    case pos
    have "logspace lo hi num \<noteq> []" using pos(3) length_logspace [of lo hi num] by auto
    then have "\<not> fails (np_histogram arr (logspace lo hi num) d)" for d
      using pos(2) by (intro np_histogram_not_fails logspace_steps)
    then show ?thesis using pos(1,4) by (auto simp: histogram_default fails_and_then)
  qed
qed

lemma histogram_Raises_iff:
  "histogram arr None density_kw = Raises ValueError \<longleftrightarrow> (\<forall>v\<in>set arr. v = 0)"
proof
  assume "histogram arr None density_kw = Raises ValueError"
  then have "fails (histogram arr None density_kw)" by simp
  then show "\<forall>v\<in>set arr. v = 0" by (simp add: histogram_fails_iff)
next
  assume "\<forall>v\<in>set arr. v = 0"
  then show "histogram arr None density_kw = Raises ValueError"
    by (simp add: histogram_default logbins_all_zero)
qed

lemma histogram_array_bins:
  assumes "2 \<le> length b"
  shows "histogram arr (Some b) density_kw = Raises ValueError"
proof -
  obtain v t where b: "b = v # t" using assms by (cases b) auto
  then obtain w r where "t = w # r" using assms by (cases t) auto
  then show ?thesis using b by (simp add: histogram_def truth_ndarray_def)
qed

lemma traverse_Returns_D:
  assumes "traverse f xs = Returns ys" "\<And>x y. x \<in> set xs \<Longrightarrow> f x = Returns y \<Longrightarrow> y = g x"
  shows "ys = map g xs"
  using assms by (induction xs arbitrary: ys) (auto simp: and_then_Returns_iff)

lemma zip_counts_widths:
  "zip (counts a b) (np_diff b) = map (\<lambda>i. (bin_count a b i, b ! Suc i - b ! i)) [0..<length b - 1]"
  by (rule nth_equalityI) (simp_all add: counts_def length_np_diff nth_np_diff)

lemma np_histogram_Returns_D:
  assumes "np_histogram a b density = Returns h"
  shows "h = (if density then FloatArr (counted_density a b) else IntArr (counts a b))"
proof -
  have steps: "\<forall>i. Suc i < length b \<longrightarrow> b ! i \<le> b ! Suc i"
    using assms by (rule np_histogram_Returns_steps)
  have ne: "b = [] \<longrightarrow> a = []"
    using assms by (auto simp: np_histogram_def split: if_splits)
  let ?s = "real_of_int (sum_list (counts a b))"
  let ?f = "\<lambda>(c, w). and_then (np_div (real_of_int c) w) (\<lambda>q. np_div q ?s)"
  show ?thesis
  proof (cases density)
    case False
    then show ?thesis using assms steps ne by (simp add: np_histogram_unfold)
  next
    case True
    then obtain ys where ys: "traverse ?f (zip (counts a b) (np_diff b)) = Returns ys" "h = FloatArr ys"
      using assms steps ne by (auto simp: np_histogram_unfold and_then_Returns_iff)
    have "ys = map (\<lambda>(c, w). real_of_int c / (?s * w)) (zip (counts a b) (np_diff b))"
      using ys(1)
      by (rule traverse_Returns_D) (auto simp: np_div_def and_then_Returns_iff split: if_splits)
    also have "\<dots> = counted_density a b"
      by (simp add: zip_counts_widths counted_density_def o_def)
    finally show ?thesis using ys(2) True by simp
  qed
qed

lemma histogram_Returns_D:
  assumes "histogram arr bins density_kw = Returns (h, b)"
  shows "np_histogram arr b (density_kw = Some True) = Returns h"
proof -
  have "(case density_kw of None \<Rightarrow> False | Some d \<Rightarrow> d) = (density_kw = Some True)"
    by (cases density_kw) auto
  then show ?thesis using assms
    by (auto simp: histogram_def and_then_Returns_iff)
qed

subsection \<open>The default edges on a sample without negative values\<close>

lemma nz_eq_positive:
  assumes "\<forall>v\<in>set arr. (0::real) \<le> v"
  shows "filter (\<lambda>x. x \<noteq> 0) arr = filter (\<lambda>x. 0 < x) arr"
  using assms by (intro filter_cong) auto

lemma logbins_spec_edges:
  assumes "\<forall>v\<in>set arr. 0 \<le> v" "\<exists>v\<in>set arr. v \<noteq> 0"
  shows "logbins arr = Returns (spec_edges arr)"
    and "0 < arrMin arr" and "arrMin arr \<le> arrMax arr"
proof -
  let ?nz = "filter (\<lambda>x. x \<noteq> 0) arr"
  have ne: "?nz \<noteq> []" using assms(2) by (simp add: filter_empty_conv)
  have eq: "?nz = filter (\<lambda>x. 0 < x) arr" using assms(1) by (rule nz_eq_positive)
  have "Min (set ?nz) \<in> set ?nz" using ne by (intro Min_in set_filter_nonempty) auto
  then show pos: "0 < arrMin arr" unfolding arrMin_def eq by simp
  show "arrMin arr \<le> arrMax arr"
    using Min_le_Max_nz [OF ne] unfolding arrMin_def arrMax_def eq .
  have "logbins arr = Returns (logspace (log 10 (Min (set ?nz))) (log 10 (Max (set arr)))
                (nat (\<lceil>log 2 (real (length arr))\<rceil> + 1)))"
    using ne pos unfolding arrMin_def eq [symmetric] by (intro logbins_positive_min)
  then show "logbins arr = Returns (spec_edges arr)"
    unfolding eq by (simp add: logspace_eq_map spec_edges_def arrMin_def arrMax_def numBins_def)
qed

lemma length_spec_edges: "length (spec_edges arr) = numBins arr"
  by (simp add: spec_edges_def)

lemma spec_edges_logspace:
  "spec_edges arr = logspace (log 10 (arrMin arr)) (log 10 (arrMax arr)) (numBins arr)"
  by (simp add: logspace_eq_map spec_edges_def)

lemma spec_edges_steps:
  assumes "0 < arrMin arr" "arrMin arr \<le> arrMax arr"
  shows "\<forall>i. Suc i < length (spec_edges arr) \<longrightarrow> spec_edges arr ! i \<le> spec_edges arr ! Suc i"
  unfolding spec_edges_logspace using assms by (intro logspace_steps) simp

lemma numBins_ge_1: "arr \<noteq> [] \<Longrightarrow> 1 \<le> numBins arr"
  unfolding numBins_def by (intro nbins_ge_1) (simp add: Suc_le_eq)

lemma histogram_default_raw:
  assumes "\<forall>v\<in>set arr. 0 \<le> v" "\<exists>v\<in>set arr. v \<noteq> 0" "density_kw \<noteq> Some True"
  shows "histogram arr None density_kw = Returns (IntArr (counts arr (spec_edges arr)), spec_edges arr)"
proof -
  have d: "(case density_kw of None \<Rightarrow> False | Some d \<Rightarrow> d) = False"
    using assms(3) by (cases density_kw) auto
  have "arr \<noteq> []" using assms(2) by auto
  then have "spec_edges arr \<noteq> []"
    using numBins_ge_1 [of arr] length_spec_edges [of arr] by auto
  moreover have "\<forall>i. Suc i < length (spec_edges arr) \<longrightarrow> spec_edges arr ! i \<le> spec_edges arr ! Suc i"
    using assms(1,2) by (intro spec_edges_steps logbins_spec_edges)
  ultimately have "np_histogram arr (spec_edges arr) False = Returns (IntArr (counts arr (spec_edges arr)))"
    by (simp add: np_histogram_unfold)
  then show ?thesis
    using logbins_spec_edges(1) [OF assms(1,2)] d by (simp add: histogram_default)
qed

subsection \<open>Concrete samples\<close>

lemma log2_4: "log 2 4 = 2"
  using log_pow_cancel [of 2 2] by simp

lemma log10_100: "log 10 100 = 2"
  using log_pow_cancel [of 10 2] by simp

lemma logbins_example: "logbins [0, 1, 10, 100] = Returns [1, 10, 100]"
proof -
  have "[0..<2] = [0, 1]" by (simp add: upt_rec)
  then show ?thesis
    by (simp add: logbins_def np_log10_def logspace_def linspace_def log2_4 log10_100)
qed

lemma histogram_example_raw:
  "histogram [0, 1, 10, 100] None None = Returns (IntArr [1, 2], [1, 10, 100])"
  by (simp add: histogram_def logbins_example np_histogram_def np_diff_def cumulative_def
      searchsorted_left_def searchsorted_right_def)

lemma histogram_example_density:
  "histogram [0, 1, 10, 100] None (Some True) = Returns (FloatArr [1 / 27, 1 / 135], [1, 10, 100])"
  by (simp add: histogram_def logbins_example np_histogram_def np_diff_def cumulative_def
      searchsorted_left_def searchsorted_right_def np_div_def)

lemma histogram_example_single: "histogram [10] None None = Returns (IntArr [], [10])"
  by (simp add: histogram_def logbins_def np_log10_def logspace_def linspace_def
      np_histogram_def np_diff_def cumulative_def searchsorted_right_def)

lemma logbins_example_negative: "logbins [- 1, 1, 100] = NonFinite"
  by (simp add: logbins_def np_log10_def)

subsection \<open>The claims about histogram\<close>

text \<open>
  C3, as the specification states it, fails: on the sample \<open>[0, 1, 10, 100]\<close> with
  \<^verbatim>\<open>density=True\<close> the default edges are \<open>[1, 10, 100]\<close>, the zero is outside them, and
  the result is \<open>[1/27, 1/135]\<close>: the counts \<open>[1, 2]\<close> divided by (3 * width), not by
  (4 * width), which would be \<open>[1/36, 1/180]\<close>.
\<close>

theorem histogram_normalization_counterexample:
  "histogram [0, 1, 10, 100] None (Some True)
     = Returns (FloatArr [1 / 27, 1 / 135], [1, 10, 100]) \<and>
   spec_density [0, 1, 10, 100] [1, 10, 100] = [1 / 36, 1 / 180] \<and>
   [1 / 27, 1 / 135] \<noteq> [1 / 36, 1 / 180 :: real]"
proof -
  have "[0..<2] = [0, 1]" by (simp add: upt_rec)
  then have "spec_density [0, 1, 10, 100] [1, 10, 100] = [1 / 36, 1 / 180]"
    by (simp add: spec_density_def bin_count_def)
  then show ?thesis by (simp add: histogram_example_density)
qed

text \<open>
  C3, amended: whenever \<open>histogram\<close> returns, with normalization requested each bin's
  count is divided by (number of sample values counted in the bins * that bin's width),
  and without it the raw integer counts are returned. With two or more edges the number
  of counted values is the number of sample values between the first and the last edge;
  when that is the whole sample, the result is the count divided by
  (sample size * bin width).
\<close>

theorem histogram_normalization:
  assumes "histogram arr bins density_kw = Returns (h, b)"
  shows "(density_kw = Some True \<longrightarrow> h = FloatArr (counted_density arr b)) \<and>
         (density_kw \<noteq> Some True \<longrightarrow> h = IntArr (counts arr b)) \<and>
         (2 \<le> length b \<longrightarrow> sum_list (counts arr b) = int (inside arr b)) \<and>
         (inside arr b = length arr \<longrightarrow> counted_density arr b = spec_density arr b)"
proof -
  have np: "np_histogram arr b (density_kw = Some True) = Returns h"
    using assms by (rule histogram_Returns_D)
  have steps: "\<forall>i. Suc i < length b \<longrightarrow> b ! i \<le> b ! Suc i"
    using np by (rule np_histogram_Returns_steps)
  have sum: "sum_list (counts arr b) = int (inside arr b)" if "2 \<le> length b"
    using steps that by (rule sum_counts_inside)
  have "counted_density arr b = spec_density arr b" if "inside arr b = length arr"
  proof (cases "2 \<le> length b")
    case True
    then show ?thesis using sum that by (simp add: counted_density_def spec_density_def)
  next
    case False
    then have "length b - 1 = 0" by simp
    then show ?thesis by (simp add: counted_density_def spec_density_def)
  qed
  then show ?thesis using np_histogram_Returns_D [OF np] sum by simp
qed

theorem histogram_normalization_witness:
  "counted_density [0, 1, 10, 100] [1, 10, 100] = [1 / 27, 1 / 135] \<and>
   sum_list (counts [0, 1, 10, 100] [1, 10, 100]) = int (inside [0, 1, 10, 100] [1, 10, 100])"
  using histogram_normalization [OF histogram_example_density] by simp

text \<open>
  C4, as the specification states it, fails: the sample \<open>[-1, -2]\<close> has no strictly
  positive element, and \<open>histogram\<close> raises nothing on it: the logarithm of the negative
  minimum is \<^verbatim>\<open>nan\<close>, and numpy goes on with \<^verbatim>\<open>nan\<close> edges.
\<close>

theorem histogram_negative_sample_counterexample:
  "histogram [- 1, - 2] None None = NonFinite \<and> \<not> fails (histogram [- 1, - 2] None None)"
  by (simp add: histogram_def logbins_def np_log10_def fails_def)

text \<open>
  C4, amended: with default bins, \<open>histogram\<close> fails exactly when the sample has no
  non-zero element, that is when it is empty or all zero; the failure is the ValueError of
  the minimum of an empty selection, raised before any edge or count is computed. A
  sample with a non-zero element raises nothing, also when none is strictly positive.
\<close>

theorem histogram_fails_iff_all_zero:
  "(fails (histogram arr None density_kw) \<longleftrightarrow> (\<forall>v\<in>set arr. v = 0)) \<and>
   (histogram arr None density_kw = Raises ValueError \<longleftrightarrow> (\<forall>v\<in>set arr. v = 0))"
  by (simp only: histogram_fails_iff histogram_Raises_iff)

theorem histogram_fails_iff_all_zero_witness:
  "histogram [] None None = Raises ValueError \<and>
   histogram [0, 0] None (Some True) = Raises ValueError \<and>
   \<not> fails (histogram [- 1, 2] None None)"
  using histogram_fails_iff_all_zero [of "[]" None]
    histogram_fails_iff_all_zero [of "[0, 0]" "Some True"]
    histogram_fails_iff_all_zero [of "[- 1, 2]" None]
  by simp

text \<open>
  C5, as the specification states it, fails: in the sample \<open>[-1, 1, 100]\<close> the minimum of
  the strictly positive elements is 1, but the code takes the minimum of the non-zero
  elements, -1, whose logarithm is \<^verbatim>\<open>nan\<close>: no edges between \<open>log10 1\<close> and \<open>log10 100\<close>
  come out.
\<close>

theorem default_edges_counterexample:
  "logbins [- 1, 1, 100] = NonFinite \<and> arrMin [- 1, 1, 100] = 1 \<and>
   histogram [- 1, 1, 100] None None = NonFinite"
  by (simp add: histogram_def logbins_example_negative arrMin_def)

text \<open>
  C5, amended: when bins is not supplied and the sample has a non-zero element and no
  negative one, the default edges are \<open>numBins = ceil(log2(n)) + 1\<close> points evenly spaced
  in log10 space between \<open>log10(arrMin)\<close> and \<open>log10(arrMax)\<close>, \<open>arrMin\<close> being the minimum
  of the non-zero elements (here the strictly positive ones) and \<open>arrMax\<close> the maximum,
  and \<open>histogram\<close> returns \<open>numBins - 1\<close> counts with them.
\<close>

theorem default_edges:
  assumes "\<forall>v\<in>set arr. 0 \<le> v" and "\<exists>v\<in>set arr. v \<noteq> 0"
  shows "logbins arr = Returns (spec_edges arr) \<and>
         length (spec_edges arr) = numBins arr \<and>
         (\<exists>c. histogram arr None None = Returns (IntArr c, spec_edges arr) \<and>
              length c = numBins arr - 1)"
proof -
  have "histogram arr None None = Returns (IntArr (counts arr (spec_edges arr)), spec_edges arr)"
    using assms by (intro histogram_default_raw) auto
  moreover have "length (counts arr (spec_edges arr)) = numBins arr - 1"
    by (simp add: counts_def length_spec_edges)
  ultimately show ?thesis
    using logbins_spec_edges(1) [OF assms] length_spec_edges [of arr] by blast
qed

theorem default_edges_witness:
  "logbins [0, 1, 10, 100] = Returns (spec_edges [0, 1, 10, 100]) \<and>
   length (spec_edges [0, 1, 10, 100]) = numBins [0, 1, 10, 100] \<and>
   (\<exists>c. histogram [0, 1, 10, 100] None None = Returns (IntArr c, spec_edges [0, 1, 10, 100]) \<and>
        length c = numBins [0, 1, 10, 100] - 1)"
proof -
  have "\<forall>v\<in>set [0, 1, 10, 100 :: real]. 0 \<le> v" "\<exists>v\<in>set [0, 1, 10, 100 :: real]. v \<noteq> 0"
    by simp_all
  then show ?thesis by (rule default_edges)
qed

text \<open>
  C9, as the specification states it, fails: the sample \<open>[0, 1, 10, 100]\<close> has four
  elements and its raw counts are \<open>[1, 2]\<close>, the zero being outside the default edges
  \<open>[1, 10, 100]\<close>; the one-element sample \<open>[10]\<close> gets the single edge 10 and no bin at
  all.
\<close>

theorem histogram_sum_counterexample:
  "histogram [0, 1, 10, 100] None None = Returns (IntArr [1, 2], [1, 10, 100]) \<and>
   sum_list [1, 2] \<noteq> int (length [0, 1, 10, 100 :: real]) \<and>
   histogram [10] None None = Returns (IntArr [], [10])"
  by (simp add: histogram_example_raw histogram_example_single)

text \<open>
  C9, amended: whenever \<open>histogram\<close> with default bins and without normalization returns
  two or more edges, it returns raw counts whose sum is the number of sample values
  between the first and the last edge, that is the length of the sample minus the values
  outside the edges; the sum is the length of the sample when no value is outside them.
\<close>

theorem histogram_counts_sum:
  assumes "histogram arr None density_kw = Returns (h, b)" and "density_kw \<noteq> Some True"
    and "2 \<le> length b"
  shows "\<exists>c. h = IntArr c \<and> sum_list c = int (inside arr b) \<and>
           sum_list c = int (length arr) - int (length (filter (\<lambda>v. v < hd b \<or> last b < v) arr)) \<and>
           ((\<forall>v\<in>set arr. hd b \<le> v \<and> v \<le> last b) \<longrightarrow> sum_list c = int (length arr))"
proof -
  have np: "np_histogram arr b (density_kw = Some True) = Returns h"
    using assms(1) by (rule histogram_Returns_D)
  then have h: "h = IntArr (counts arr b)"
    using np_histogram_Returns_D [OF np] assms(2) by simp
  have "\<forall>i. Suc i < length b \<longrightarrow> b ! i \<le> b ! Suc i"
    using np by (rule np_histogram_Returns_steps)
  then have s: "sum_list (counts arr b) = int (inside arr b)"
    using assms(3) by (rule sum_counts_inside)
  have "length arr = inside arr b + length (filter (\<lambda>v. v < hd b \<or> last b < v) arr)"
    unfolding inside_def
    by (subst sum_length_filter_compl [symmetric, of _ "\<lambda>v. hd b \<le> v \<and> v \<le> last b"])
       (simp add: not_le de_Morgan_conj)
  moreover have "inside arr b = length arr" if "\<forall>v\<in>set arr. hd b \<le> v \<and> v \<le> last b"
    using that by (simp add: inside_def)
  ultimately show ?thesis using h s by auto
qed

theorem histogram_counts_sum_witness:
  "sum_list [1, 2] = int (inside [0, 1, 10, 100] [1, 10, 100]) \<and>
   sum_list [1, 2] = int (length [0, 1, 10, 100 :: real])
     - int (length (filter (\<lambda>v. v < hd [1, 10, 100] \<or> last [1, 10, 100] < v) [0, 1, 10, 100 :: real]))"
  using histogram_counts_sum [OF histogram_example_raw] by simp

text \<open>
  C10: a bins argument that is a numpy array of two or more edges makes \<open>histogram\<close>
  raise ValueError at \<^verbatim>\<open>not bins\<close>, before any count is computed, whatever the sample
  and the keywords are.
\<close>

theorem histogram_array_bins_raises:
  assumes "2 \<le> length b"
  shows "histogram arr (Some b) density_kw = Raises ValueError"
  using assms by (rule histogram_array_bins)

theorem histogram_array_bins_raises_witness:
  "histogram [1, 2, 3] (Some [1, 2, 4]) None = Raises ValueError"
  using histogram_array_bins_raises [of "[1, 2, 4]" "[1, 2, 3]" None] by simp

end
